theory Spec2Isabelle
  imports Main "HOL-Library.Word"
begin

section \<open>Outcomes of a call\<close>

text \<open>
  A Go call either returns, panics (nil dereference, index out of range, unlocking a
  mutex that is not held) or waits for a lock that the calling goroutine cannot get by
  itself. All three are values of the model.
\<close>

datatype 'a outcome = Returns 'a | Panics | Blocks

fun bind :: "'a outcome \<Rightarrow> ('a \<Rightarrow> 'b outcome) \<Rightarrow> 'b outcome" where
  "bind (Returns x) f = f x"
| "bind Panics f = Panics"
| "bind Blocks f = Blocks"

text \<open>Go slice indexing \<open>xs[i]\<close>: a run-time panic when the index is out of range.\<close>

definition index :: "'a list \<Rightarrow> nat \<Rightarrow> 'a outcome" where
  "index xs i = (if i < length xs then Returns (xs ! i) else Panics)"

section \<open>ActivityParty\<close>

text \<open>
  \<^verbatim>\<open>type ActivityParty struct { ID string; Size []int }\<close>.
  The elements of \<open>Size\<close> are only read and handed back, no arithmetic is done on them.
\<close>

record ActivityParty =
  party_ID :: string
  Size :: "int list"

text \<open>
  \<^verbatim>\<open>func (ap *ActivityParty) Limit() int {
    if len(ap.Size) != 2 { return 0 }
    return ap.Size[1] }\<close>
\<close>

definition Limit :: "ActivityParty \<Rightarrow> int outcome" where
  "Limit ap = (if length (Size ap) \<noteq> 2 then Returns 0 else index (Size ap) 1)"

text \<open>
  \<^verbatim>\<open>func (ap *ActivityParty) NumberOfPeople() int {
    if len(ap.Size) != 1 { return 0 }
    return ap.Size[0] }\<close>
\<close>

definition NumberOfPeople :: "ActivityParty \<Rightarrow> int outcome" where
  "NumberOfPeople ap = (if length (Size ap) \<noteq> 1 then Returns 0 else index (Size ap) 0)"

section \<open>Identifiers, errors, locks\<close>

text \<open>A Snowflake is an unsigned 64-bit identifier.\<close>

type_synonym Snowflake = "64 word"

text \<open>
  Modelled from the spec: the method \<open>Empty\<close> of Snowflake is declared outside the files
  at hand. The spec: "Identifier value 0 (or absence) denotes not yet assigned / empty".
\<close>

definition Empty :: "Snowflake \<Rightarrow> bool" where
  "Empty x = (x = 0)"

text \<open>
  The two error values the code builds: \<open>NewErrorUnsupportedType(msg)\<close> (its
  constructor is declared outside the files at hand; it is kept as a tag with its
  message) and \<open>errors.New(msg)\<close>.
\<close>

datatype error = ErrorUnsupportedType string | ErrorString string

definition NewErrorUnsupportedType :: "string \<Rightarrow> error" where
  "NewErrorUnsupportedType msg = ErrorUnsupportedType msg"

definition errors_New :: "string \<Rightarrow> error" where
  "errors_New msg = ErrorString msg"

text \<open>
  \<open>sync.RWMutex\<close>, seen from one goroutine: how many read locks are held and whether
  the write lock is held. \<open>RLock\<close> waits while the write lock is held; \<open>Lock\<close> waits
  while any lock is held; releasing a lock that is not held is a fatal error.
\<close>

record RWMutex =
  readers :: nat
  writer :: bool

definition RLock :: "RWMutex \<Rightarrow> RWMutex outcome" where
  "RLock m = (if writer m then Blocks else Returns (m\<lparr>readers := Suc (readers m)\<rparr>))"

definition RUnlock :: "RWMutex \<Rightarrow> RWMutex outcome" where
  "RUnlock m = (if readers m = 0 then Panics else Returns (m\<lparr>readers := readers m - 1\<rparr>))"

definition Lock :: "RWMutex \<Rightarrow> RWMutex outcome" where
  "Lock m = (if writer m \<or> readers m \<noteq> 0 then Blocks else Returns (m\<lparr>writer := True\<rparr>))"

definition Unlock :: "RWMutex \<Rightarrow> RWMutex outcome" where
  "Unlock m = (if \<not> writer m then Panics else Returns (m\<lparr>writer := False\<rparr>))"

section \<open>User and the store\<close>

text \<open>
  A pointer is \<open>None\<close> (nil) or the address of a cell. Users, string cells and parties
  live in a store, one list per type; the address of a cell is its index, and a new
  cell is appended, so its address is unused before.
\<close>

type_synonym ptr = "nat option"

text \<open>
  \<^verbatim>\<open>type User struct {
    ID Snowflake `json:"id,omitempty"`;  Username string `json:"username,omitempty"`
    Discriminator string `json:"discriminator,omitempty"`;  Email string `json:"email,omitempty"`
    Avatar *string `json:"avatar"`;  Token string `json:"token,omitempty"`
    Verified bool `json:"verified,omitempty"`;  MFAEnabled bool `json:"mfa_enabled,omitempty"`
    Bot bool `json:"bot,omitempty"`;  sync.RWMutex `json:"-"` }\<close>
\<close>

record User =
  ID :: Snowflake
  Username :: string
  Discriminator :: string
  Email :: string
  Avatar :: ptr
  Token :: string
  Verified :: bool
  MFAEnabled :: bool
  Bot :: bool
  mutex :: RWMutex

record store =
  users :: "User list"
  strings :: "string list"
  parties :: "ActivityParty list"

text \<open>
  A value of type \<open>interface{}\<close>: nil, a \<open>*User\<close>, or a value of another dynamic
  type (a User held by value, a \<open>*ActivityParty\<close>, a string, an int).
\<close>

datatype iface = NilIface | PtrUser ptr | ValUser User | PtrParty ptr | ValString string | ValInt int

text \<open>\<^verbatim>\<open>&User{}\<close>: every field at its zero value.\<close>

definition zero_User :: User where
  "zero_User = \<lparr>ID = 0, Username = [], Discriminator = [], Email = [], Avatar = None,
     Token = [], Verified = False, MFAEnabled = False, Bot = False,
     mutex = \<lparr>readers = 0, writer = False\<rparr>\<rparr>"

text \<open>\<^verbatim>\<open>func NewUser() *User { return &User{} }\<close>\<close>

definition NewUser :: "store \<Rightarrow> ptr \<times> store" where
  "NewUser s = (Some (length (users s)), s\<lparr>users := users s @ [zero_User]\<rparr>)"

text \<open>Reading and writing through a \<open>*User\<close>; a nil pointer panics.\<close>

definition load_user :: "store \<Rightarrow> ptr \<Rightarrow> User outcome" where
  "load_user s p = (case p of None \<Rightarrow> Panics | Some a \<Rightarrow> index (users s) a)"

definition store_user :: "store \<Rightarrow> ptr \<Rightarrow> User \<Rightarrow> store outcome" where
  "store_user s p u =
     (case p of None \<Rightarrow> Panics
      | Some a \<Rightarrow> if a < length (users s) then Returns (s\<lparr>users := (users s)[a := u]\<rparr>)
                  else Panics)"

text \<open>Reading and writing through a \<open>*string\<close>, and \<open>&avatar\<close> for a new local.\<close>

definition load_string :: "store \<Rightarrow> ptr \<Rightarrow> string outcome" where
  "load_string s p = (case p of None \<Rightarrow> Panics | Some a \<Rightarrow> index (strings s) a)"

definition store_string :: "store \<Rightarrow> ptr \<Rightarrow> string \<Rightarrow> store outcome" where
  "store_string s p v =
     (case p of None \<Rightarrow> Panics
      | Some a \<Rightarrow> if a < length (strings s) then Returns (s\<lparr>strings := (strings s)[a := v]\<rparr>)
                  else Panics)"

definition new_string :: "store \<Rightarrow> string \<Rightarrow> ptr \<times> store" where
  "new_string s v = (Some (length (strings s)), s\<lparr>strings := strings s @ [v]\<rparr>)"

text \<open>A lock operation on the mutex embedded in the User at \<open>p\<close>.\<close>

definition on_mutex :: "(RWMutex \<Rightarrow> RWMutex outcome) \<Rightarrow> store \<Rightarrow> ptr \<Rightarrow> store outcome" where
  "on_mutex f s p =
     bind (load_user s p) (\<lambda>u.
     bind (f (mutex u)) (\<lambda>m.
     store_user s p (u\<lparr>mutex := m\<rparr>)))"

text \<open>
  Every Avatar pointer of the store leads to a string cell. Go has no dangling
  pointers, so each store a program reaches is of this kind.
\<close>

definition wf_store :: "store \<Rightarrow> bool" where
  "wf_store s = list_all (\<lambda>u. case Avatar u of None \<Rightarrow> True | Some a \<Rightarrow> a < length (strings s)) (users s)"

section \<open>Copying\<close>

text \<open>
  \<^verbatim>\<open>func (u *User) CopyOverTo(other interface{}) (err error) {
    var user *User; var valid bool
    if user, valid = other.(*User); !valid {
      err = NewErrorUnsupportedType("argument given is not a *User type"); return }
    u.RLock(); user.Lock()
    user.ID = u.ID; user.Username = u.Username; user.Discriminator = u.Discriminator
    user.Email = u.Email; user.Token = u.Token; user.Verified = u.Verified
    user.MFAEnabled = u.MFAEnabled; user.Bot = u.Bot
    if u.Avatar != nil { avatar := *u.Avatar; user.Avatar = &avatar }
    u.RUnlock(); user.Unlock()
    return }\<close>
  The assignments between the locks are taken together: the source is read and the
  target written, field by field, each field once.
\<close>

definition copy_fields :: "store \<Rightarrow> ptr \<Rightarrow> ptr \<Rightarrow> store outcome" where
  "copy_fields s u user =
     bind (load_user s u) (\<lambda>src.
     bind (load_user s user) (\<lambda>dst.
     bind (store_user s user
        (dst\<lparr>ID := ID src, Username := Username src, Discriminator := Discriminator src,
             Email := Email src, Token := Token src, Verified := Verified src,
             MFAEnabled := MFAEnabled src, Bot := Bot src\<rparr>)) (\<lambda>s1.
     if Avatar src \<noteq> None then
       bind (load_string s1 (Avatar src)) (\<lambda>avatar.
       case new_string s1 avatar of (cell, s2) \<Rightarrow>
         bind (load_user s2 user) (\<lambda>dst2. store_user s2 user (dst2\<lparr>Avatar := cell\<rparr>)))
     else Returns s1)))"

definition CopyOverTo :: "store \<Rightarrow> ptr \<Rightarrow> iface \<Rightarrow> (error option \<times> store) outcome" where
  "CopyOverTo s u other =
     (case other of
        PtrUser user \<Rightarrow>
          bind (on_mutex RLock s u) (\<lambda>s1.
          bind (on_mutex Lock s1 user) (\<lambda>s2.
          bind (copy_fields s2 u user) (\<lambda>s3.
          bind (on_mutex RUnlock s3 u) (\<lambda>s4.
          bind (on_mutex Unlock s4 user) (\<lambda>s5.
          Returns (None, s5))))))
      | _ \<Rightarrow> Returns (Some (NewErrorUnsupportedType ''argument given is not a *User type''), s))"

text \<open>
  \<^verbatim>\<open>func (u *User) DeepCopy() (copy interface{}) {
    copy = NewUser(); u.CopyOverTo(copy); return }\<close>
  The error of \<open>CopyOverTo\<close> is dropped.
\<close>

definition DeepCopy :: "store \<Rightarrow> ptr \<Rightarrow> (iface \<times> store) outcome" where
  "DeepCopy s u =
     (case NewUser s of (copy, s1) \<Rightarrow>
        bind (CopyOverTo s1 u (PtrUser copy)) (\<lambda>(err, s2). Returns (PtrUser copy, s2)))"

text \<open>\<^verbatim>\<open>func (u *User) Clear() { //u.d.Avatar = nil }\<close>: the body is a comment.\<close>

definition Clear :: "store \<Rightarrow> ptr \<Rightarrow> store outcome" where
  "Clear s u = Returns s"

text \<open>
  \<^verbatim>\<open>func (u *User) SaveToDiscord(session Session) (err error) {
    return errors.New("not implemented") }\<close>
  The session is the state of the collaborator; a call to it would change that state.
\<close>

definition SaveToDiscord :: "store \<Rightarrow> ptr \<Rightarrow> 'session \<Rightarrow> (error option \<times> store \<times> 'session) outcome" where
  "SaveToDiscord s u session = Returns (Some (errors_New ''not implemented''), s, session)"

text \<open>\<^verbatim>\<open>func (u *User) Valid() bool { return u.ID > 0 }\<close>\<close>

definition Valid :: "User \<Rightarrow> bool" where
  "Valid u = (ID u > 0)"

section \<open>Serialization\<close>

text \<open>
  What \<open>encoding/json\<close> writes for a struct: the members of one JSON object, in the
  order of the fields. A field tagged \<open>omitempty\<close> is left out when it holds the zero
  value of its type (0, false, the empty string, a nil pointer); a field tagged
  \<open>"-"\<close> is never written; a nil pointer without \<open>omitempty\<close> is written as null and
  any other pointer as the value it leads to.
\<close>

datatype jvalue = JNull | JBool bool | JString string | JSnowflake Snowflake

type_synonym member = "string \<times> jvalue"

definition omitempty :: "bool \<Rightarrow> member \<Rightarrow> member list" where
  "omitempty is_zero m = (if is_zero then [] else [m])"

definition keys :: "member list \<Rightarrow> string list" where
  "keys ms = map fst ms"

text \<open>The members \<open>json.Marshal\<close> selects for a User value, by the tags of its fields.\<close>

definition user_members :: "store \<Rightarrow> User \<Rightarrow> member list outcome" where
  "user_members s u =
     bind (case Avatar u of None \<Rightarrow> Returns JNull
           | Some a \<Rightarrow> bind (load_string s (Some a)) (\<lambda>v. Returns (JString v))) (\<lambda>avatar.
     Returns (
       omitempty (ID u = 0) (''id'', JSnowflake (ID u)) @
       omitempty (Username u = []) (''username'', JString (Username u)) @
       omitempty (Discriminator u = []) (''discriminator'', JString (Discriminator u)) @
       omitempty (Email u = []) (''email'', JString (Email u)) @
       [(''avatar'', avatar)] @
       omitempty (Token u = []) (''token'', JString (Token u)) @
       omitempty (\<not> Verified u) (''verified'', JBool (Verified u)) @
       omitempty (\<not> MFAEnabled u) (''mfa_enabled'', JBool (MFAEnabled u)) @
       omitempty (\<not> Bot u) (''bot'', JBool (Bot u))))"

text \<open>
  The text of the object. Two encoders are parameters: \<open>enc_id\<close>, what
  \<open>json.Marshal\<close> writes for a Snowflake (the type and its own encoder are declared
  outside the files at hand; an encoder may fail), and \<open>enc_str\<close>, the quoted and
  escaped JSON text of a string.
\<close>

fun render_value :: "(Snowflake \<Rightarrow> error + string) \<Rightarrow> (string \<Rightarrow> string) \<Rightarrow> jvalue \<Rightarrow> error + string" where
  "render_value enc_id enc_str JNull = Inr ''null''"
| "render_value enc_id enc_str (JBool b) = Inr (if b then ''true'' else ''false'')"
| "render_value enc_id enc_str (JString v) = Inr (enc_str v)"
| "render_value enc_id enc_str (JSnowflake x) = enc_id x"

fun render_members :: "(Snowflake \<Rightarrow> error + string) \<Rightarrow> (string \<Rightarrow> string) \<Rightarrow> member list \<Rightarrow> error + string" where
  "render_members enc_id enc_str [] = Inr []"
| "render_members enc_id enc_str ((k, v) # ms) =
     (case render_value enc_id enc_str v of
        Inl e \<Rightarrow> Inl e
      | Inr txt \<Rightarrow>
         (case render_members enc_id enc_str ms of
            Inl e \<Rightarrow> Inl e
          | Inr rest \<Rightarrow>
              Inr ([CHR 0x22] @ k @ [CHR 0x22] @ '':'' @ txt @ (if ms = [] then [] else '','') @ rest)))"

definition render_object :: "(Snowflake \<Rightarrow> error + string) \<Rightarrow> (string \<Rightarrow> string) \<Rightarrow> member list \<Rightarrow> error + string" where
  "render_object enc_id enc_str ms =
     (case render_members enc_id enc_str ms of Inl e \<Rightarrow> Inl e | Inr txt \<Rightarrow> Inr (''{'' @ txt @ ''}''))"

text \<open>
  \<open>json.Marshal(User(*u))\<close>: the argument is a User value, not a pointer, so the
  method \<open>MarshalJSON\<close> of \<open>*User\<close> is not called again and the struct is written by
  its tags.
\<close>

definition json_Marshal_User :: "(Snowflake \<Rightarrow> error + string) \<Rightarrow> (string \<Rightarrow> string) \<Rightarrow> store \<Rightarrow> User \<Rightarrow> (error + string) outcome" where
  "json_Marshal_User enc_id enc_str s v =
     bind (user_members s v) (\<lambda>ms. Returns (render_object enc_id enc_str ms))"

text \<open>
  \<^verbatim>\<open>func (u *User) MarshalJSON() ([]byte, error) {
    if u.ID.Empty() { return []byte("{}"), nil }
    return json.Marshal(User(*u)) }\<close>
  The pair of the bytes and the error is a sum: \<open>Inr\<close> the bytes, \<open>Inl\<close> the error.
\<close>

definition MarshalJSON :: "(Snowflake \<Rightarrow> error + string) \<Rightarrow> (string \<Rightarrow> string) \<Rightarrow> store \<Rightarrow> ptr \<Rightarrow> (error + string) outcome" where
  "MarshalJSON enc_id enc_str s u =
     bind (load_user s u) (\<lambda>v.
     if Empty (ID v) then Returns (Inr ''{}'')
     else json_Marshal_User enc_id enc_str s v)"

text \<open>
  \<^verbatim>\<open>func Unmarshal(data []byte, v interface{}) error {
    if j, has := v.(json.Unmarshaler); has { return j.UnmarshalJSON(data) }
    return json.Unmarshal(data, v) }\<close>
  \<open>as_Unmarshaler\<close> is the type assertion: the method \<open>UnmarshalJSON\<close> of the target
  when its type has one. \<open>json_Unmarshal\<close> is the decoder of \<open>encoding/json\<close>. Both
  give a result of type \<open>'r\<close>: the error, and what has become of the target.
\<close>

definition Unmarshal :: "('v \<Rightarrow> (string \<Rightarrow> 'r) option) \<Rightarrow> (string \<Rightarrow> 'v \<Rightarrow> 'r) \<Rightarrow> string \<Rightarrow> 'v \<Rightarrow> 'r" where
  "Unmarshal as_Unmarshaler json_Unmarshal data v =
     (case as_Unmarshaler v of
        Some UnmarshalJSON \<Rightarrow> UnmarshalJSON data
      | None \<Rightarrow> json_Unmarshal data v)"

section \<open>Auxiliary notions for the statements\<close>

text \<open>
  The target after the transfer of \<open>CopyOverTo\<close>: the eight scalar fields of the
  source, the Avatar pointer \<open>av\<close>, and the target's own mutex.
\<close>

definition copied :: "User \<Rightarrow> User \<Rightarrow> ptr \<Rightarrow> User" where
  "copied src dst av =
     dst\<lparr>ID := ID src, Username := Username src, Discriminator := Discriminator src,
         Email := Email src, Token := Token src, Verified := Verified src,
         MFAEnabled := MFAEnabled src, Bot := Bot src, Avatar := av\<rparr>"

text \<open>A member whose value the encoders can write.\<close>

definition renders :: "(Snowflake \<Rightarrow> error + string) \<Rightarrow> (string \<Rightarrow> string) \<Rightarrow> member \<Rightarrow> bool" where
  "renders enc_id enc_str m = (\<exists>val. render_value enc_id enc_str (snd m) = Inr val)"

text \<open>The text of a value, when the identifier is written as \<open>idtext\<close>.\<close>

definition value_text :: "(string \<Rightarrow> string) \<Rightarrow> string \<Rightarrow> jvalue \<Rightarrow> string" where
  "value_text enc_str idtext v =
     (case v of JNull \<Rightarrow> ''null'' | JBool b \<Rightarrow> (if b then ''true'' else ''false'')
      | JString x \<Rightarrow> enc_str x | JSnowflake x \<Rightarrow> idtext)"

text \<open>
  A store for the concrete cases: a complete user with an avatar, a user without
  identifier whose other fields are set, and a party.
\<close>

definition example_store :: store where
  "example_store =
     \<lparr>users =
        [\<lparr>ID = 123, Username = ''Ann'', Discriminator = ''0001'', Email = [], Avatar = Some 0,
          Token = [], Verified = True, MFAEnabled = False, Bot = False,
          mutex = \<lparr>readers = 0, writer = False\<rparr>\<rparr>,
         \<lparr>ID = 0, Username = ''Bob'', Discriminator = ''0002'', Email = ''b@x.y'', Avatar = None,
          Token = ''t'', Verified = True, MFAEnabled = True, Bot = True,
          mutex = \<lparr>readers = 0, writer = False\<rparr>\<rparr>],
      strings = [''a1b2''],
      parties = [\<lparr>party_ID = ''p'', Size = [2, 4]\<rparr>]\<rparr>"

section \<open>Goroutines that run CopyOverTo at the same time\<close>

text \<open>
  A goroutine inside \<open>u.CopyOverTo(user)\<close>, after the type assertion has succeeded, is
  at one of five statements or has returned: \<open>u.RLock()\<close>, \<open>user.Lock()\<close>, the
  assignments, \<open>u.RUnlock()\<close>, \<open>user.Unlock()\<close>. One step runs the statement it is
  at, on the shared store, with the operations \<open>CopyOverTo\<close> itself is made of; a
  statement that waits for a lock gives \<open>Blocks\<close> and the goroutine stays where it is.
  A lock is granted in one step, by the rules of \<open>RLock\<close> and \<open>Lock\<close> above: a read
  lock whenever no writer holds the mutex, the write lock when no one holds it.
  (\<open>sync.RWMutex\<close> moreover makes a new reader wait while a writer is waiting for
  the mutex; a goroutine that waits holds no lock of that mutex, and this is not
  part of the model.)
\<close>

datatype pc = AtRLock | AtLock | AtCopy | AtRUnlock | AtUnlock | Done

record goroutine =
  at :: pc
  self :: ptr
  target :: ptr

definition call :: "ptr \<Rightarrow> ptr \<Rightarrow> goroutine" where
  "call u user = \<lparr>at = AtRLock, self = u, target = user\<rparr>"

definition goroutine_step :: "store \<Rightarrow> goroutine \<Rightarrow> (store \<times> goroutine) outcome" where
  "goroutine_step s g =
     (case at g of
        AtRLock \<Rightarrow> bind (on_mutex RLock s (self g)) (\<lambda>s'. Returns (s', g\<lparr>at := AtLock\<rparr>))
      | AtLock \<Rightarrow> bind (on_mutex Lock s (target g)) (\<lambda>s'. Returns (s', g\<lparr>at := AtCopy\<rparr>))
      | AtCopy \<Rightarrow>
          bind (copy_fields s (self g) (target g)) (\<lambda>s'. Returns (s', g\<lparr>at := AtRUnlock\<rparr>))
      | AtRUnlock \<Rightarrow>
          bind (on_mutex RUnlock s (self g)) (\<lambda>s'. Returns (s', g\<lparr>at := AtUnlock\<rparr>))
      | AtUnlock \<Rightarrow> bind (on_mutex Unlock s (target g)) (\<lambda>s'. Returns (s', g\<lparr>at := Done\<rparr>))
      | Done \<Rightarrow> Returns (s, g))"

text \<open>One goroutine on its own, for \<open>n\<close> steps.\<close>

fun run_alone :: "nat \<Rightarrow> store \<Rightarrow> goroutine \<Rightarrow> (store \<times> goroutine) outcome" where
  "run_alone 0 s g = Returns (s, g)"
| "run_alone (Suc n) s g = bind (goroutine_step s g) (\<lambda>(s', g'). run_alone n s' g')"



















section \<open>Theorems\<close>

text \<open>
  C7. For every ActivityParty \<open>p\<close>: \<open>Limit\<close> returns \<open>Size[1]\<close> when the size list has
  exactly two elements and 0 for every other length; \<open>NumberOfPeople\<close> returns
  \<open>Size[0]\<close> when the size list has exactly one element and 0 for every other length;
  neither call panics, whatever the length.
\<close>

theorem party_limit_and_people:
  "(length (Size p) = 2 \<longrightarrow> Limit p = Returns (Size p ! 1)) \<and>
   (length (Size p) \<noteq> 2 \<longrightarrow> Limit p = Returns 0) \<and>
   (length (Size p) = 1 \<longrightarrow> NumberOfPeople p = Returns (Size p ! 0)) \<and>
   (length (Size p) \<noteq> 1 \<longrightarrow> NumberOfPeople p = Returns 0) \<and>
   Limit p \<noteq> Panics \<and> Limit p \<noteq> Blocks \<and>
   NumberOfPeople p \<noteq> Panics \<and> NumberOfPeople p \<noteq> Blocks"
  by (simp add: Limit_def NumberOfPeople_def index_def)

theorem party_limit_and_people_witness:
  "Limit \<lparr>party_ID = ''p'', Size = [3, 8]\<rparr> = Returns 8 \<and>
   Limit \<lparr>party_ID = ''p'', Size = [3]\<rparr> = Returns 0 \<and>
   Limit \<lparr>party_ID = ''p'', Size = [3, 8, 9]\<rparr> = Returns 0 \<and>
   NumberOfPeople \<lparr>party_ID = ''p'', Size = [3]\<rparr> = Returns 3 \<and>
   NumberOfPeople \<lparr>party_ID = ''p'', Size = [3, 8]\<rparr> = Returns 0 \<and>
   NumberOfPeople \<lparr>party_ID = ''p'', Size = []\<rparr> = Returns 0"
  using party_limit_and_people [of "\<lparr>party_ID = ''p'', Size = [3, 8]\<rparr>"]
        party_limit_and_people [of "\<lparr>party_ID = ''p'', Size = [3]\<rparr>"]
        party_limit_and_people [of "\<lparr>party_ID = ''p'', Size = [3, 8, 9]\<rparr>"]
        party_limit_and_people [of "\<lparr>party_ID = ''p'', Size = []\<rparr>"]
  by simp


subsection \<open>Locks and field transfer, step by step\<close>

lemma bind_Returns_iff: "(bind m f = Returns y) = (\<exists>x. m = Returns x \<and> f x = Returns y)"
  by (cases m) auto

lemma release_writer_id: "\<not> writer m \<Longrightarrow> m\<lparr>writer := False\<rparr> = m"
  by (cases m) simp

lemma on_mutex_RLock:
  "a < length (users s) \<Longrightarrow> \<not> writer (mutex (users s ! a)) \<Longrightarrow>
   on_mutex RLock s (Some a) =
     Returns (s\<lparr>users := (users s)[a := (users s ! a)\<lparr>mutex :=
        (mutex (users s ! a))\<lparr>readers := Suc (readers (mutex (users s ! a)))\<rparr>\<rparr>]\<rparr>)"
  by (simp add: on_mutex_def load_user_def index_def RLock_def store_user_def)

lemma on_mutex_Lock:
  "b < length (users s) \<Longrightarrow> \<not> writer (mutex (users s ! b)) \<Longrightarrow>
   readers (mutex (users s ! b)) = 0 \<Longrightarrow>
   on_mutex Lock s (Some b) =
     Returns (s\<lparr>users := (users s)[b := (users s ! b)\<lparr>mutex :=
        (mutex (users s ! b))\<lparr>writer := True\<rparr>\<rparr>]\<rparr>)"
  by (simp add: on_mutex_def load_user_def index_def Lock_def store_user_def)

lemma on_mutex_RUnlock:
  "a < length (users s) \<Longrightarrow> readers (mutex (users s ! a)) \<noteq> 0 \<Longrightarrow>
   on_mutex RUnlock s (Some a) =
     Returns (s\<lparr>users := (users s)[a := (users s ! a)\<lparr>mutex :=
        (mutex (users s ! a))\<lparr>readers := readers (mutex (users s ! a)) - 1\<rparr>\<rparr>]\<rparr>)"
  by (simp add: on_mutex_def load_user_def index_def RUnlock_def store_user_def)

lemma on_mutex_Unlock:
  "b < length (users s) \<Longrightarrow> writer (mutex (users s ! b)) \<Longrightarrow>
   on_mutex Unlock s (Some b) =
     Returns (s\<lparr>users := (users s)[b := (users s ! b)\<lparr>mutex :=
        (mutex (users s ! b))\<lparr>writer := False\<rparr>\<rparr>]\<rparr>)"
  by (simp add: on_mutex_def load_user_def index_def Unlock_def store_user_def)

lemma copy_fields_nil:
  "a < length (users s) \<Longrightarrow> b < length (users s) \<Longrightarrow> Avatar (users s ! a) = None \<Longrightarrow>
   copy_fields s (Some a) (Some b) =
     Returns (s\<lparr>users := (users s)[b :=
        copied (users s ! a) (users s ! b) (Avatar (users s ! b))]\<rparr>)"
  by (simp add: copy_fields_def load_user_def index_def store_user_def copied_def)

lemma copy_fields_value:
  "a < length (users s) \<Longrightarrow> b < length (users s) \<Longrightarrow> Avatar (users s ! a) = Some p \<Longrightarrow>
   p < length (strings s) \<Longrightarrow>
   copy_fields s (Some a) (Some b) =
     Returns (s\<lparr>users := (users s)[b :=
        copied (users s ! a) (users s ! b) (Some (length (strings s)))],
               strings := strings s @ [strings s ! p]\<rparr>)"
  by (simp add: copy_fields_def load_user_def index_def store_user_def copied_def
      load_string_def new_string_def)

text \<open>
  The whole call between two different users, when the locks are free: the source
  without an avatar leaves the Avatar pointer of the target as it was.
\<close>

lemma CopyOverTo_nil_avatar:
  assumes "a < length (users s)" "b < length (users s)" "a \<noteq> b"
    and "\<not> writer (mutex (users s ! a))"
    and "\<not> writer (mutex (users s ! b))" "readers (mutex (users s ! b)) = 0"
    and "Avatar (users s ! a) = None"
  shows "CopyOverTo s (Some a) (PtrUser (Some b)) =
     Returns (None, s\<lparr>users := (users s)[b :=
        copied (users s ! a) (users s ! b) (Avatar (users s ! b))]\<rparr>)"
  using assms
  by (simp add: CopyOverTo_def on_mutex_RLock on_mutex_Lock copy_fields_nil on_mutex_RUnlock
      on_mutex_Unlock copied_def list_update_swap release_writer_id)

lemma CopyOverTo_value_avatar:
  assumes "a < length (users s)" "b < length (users s)" "a \<noteq> b"
    and "\<not> writer (mutex (users s ! a))"
    and "\<not> writer (mutex (users s ! b))" "readers (mutex (users s ! b)) = 0"
    and "Avatar (users s ! a) = Some p" "p < length (strings s)"
  shows "CopyOverTo s (Some a) (PtrUser (Some b)) =
     Returns (None, s\<lparr>users := (users s)[b :=
        copied (users s ! a) (users s ! b) (Some (length (strings s)))],
               strings := strings s @ [strings s ! p]\<rparr>)"
  using assms
  by (simp add: CopyOverTo_def on_mutex_RLock on_mutex_Lock copy_fields_value on_mutex_RUnlock
      on_mutex_Unlock copied_def list_update_swap release_writer_id)

text \<open>A user copied over to itself: the write lock waits for the read lock just taken.\<close>

lemma CopyOverTo_self_blocks:
  "a < length (users s) \<Longrightarrow> CopyOverTo s (Some a) (PtrUser (Some a)) = Blocks"
  by (simp add: CopyOverTo_def on_mutex_def load_user_def index_def RLock_def store_user_def
      Lock_def)

lemma wf_store_avatar:
  "wf_store s \<Longrightarrow> a < length (users s) \<Longrightarrow> Avatar (users s ! a) = Some p \<Longrightarrow>
   p < length (strings s)"
  by (auto simp: wf_store_def list_all_length split: option.splits)

lemma DeepCopy_result:
  assumes "a < length (users s)" "wf_store s" "\<not> writer (mutex (users s ! a))"
  shows "DeepCopy s (Some a) =
     Returns (PtrUser (Some (length (users s))),
       s\<lparr>users := users s @
            [copied (users s ! a) zero_User
               (map_option (\<lambda>_. length (strings s)) (Avatar (users s ! a)))],
         strings := strings s @
            (case Avatar (users s ! a) of None \<Rightarrow> [] | Some p \<Rightarrow> [strings s ! p])\<rparr>)"
proof (cases "Avatar (users s ! a)")
  case None
  let ?s1 = "s\<lparr>users := users s @ [zero_User]\<rparr>"
  have "CopyOverTo ?s1 (Some a) (PtrUser (Some (length (users s)))) =
     Returns (None, ?s1\<lparr>users := (users ?s1)[length (users s) :=
        copied (users ?s1 ! a) (users ?s1 ! length (users s))
          (Avatar (users ?s1 ! length (users s)))]\<rparr>)"
    using assms None
    by (intro CopyOverTo_nil_avatar) (simp_all add: nth_append zero_User_def)
  then show ?thesis
    using assms None by (simp add: DeepCopy_def NewUser_def nth_append zero_User_def)
next
  case (Some p)
  let ?s1 = "s\<lparr>users := users s @ [zero_User]\<rparr>"
  have p: "p < length (strings s)"
    using assms(2,1) Some by (rule wf_store_avatar)
  have "CopyOverTo ?s1 (Some a) (PtrUser (Some (length (users s)))) =
     Returns (None, ?s1\<lparr>users := (users ?s1)[length (users s) :=
        copied (users ?s1 ! a) (users ?s1 ! length (users s)) (Some (length (strings ?s1)))],
        strings := strings ?s1 @ [strings ?s1 ! p]\<rparr>)"
    using assms Some p
    by (intro CopyOverTo_value_avatar) (simp_all add: nth_append zero_User_def)
  then show ?thesis
    using assms Some by (simp add: DeepCopy_def NewUser_def nth_append zero_User_def)
qed


subsection \<open>DeepCopy and CopyOverTo\<close>

text \<open>
  C2. For a user at address \<open>a\<close> of a store without dangling Avatar pointers, whose
  write lock no one holds, \<open>DeepCopy\<close> returns a pointer \<open>c\<close> to a new User: \<open>c\<close> is
  an address unused before, every user and every string cell that existed is as it
  was, the fields of the copy equal those of the source, the copy of a nil Avatar is
  nil, and the copy of an Avatar pointer \<open>p\<close> is another pointer \<open>q\<close> to a cell with
  the same string. A write through \<open>q\<close> is not seen through \<open>p\<close> nor one through \<open>p\<close>
  through \<open>q\<close>, and a write to the copy is not seen in the source nor one to the
  source in the copy.
\<close>

theorem DeepCopy_independent_copy:
  assumes "a < length (users s)" and "wf_store s" and "\<not> writer (mutex (users s ! a))"
  shows "\<exists>s' c. DeepCopy s (Some a) = Returns (PtrUser (Some c), s') \<and>
     c = length (users s) \<and> length (users s') = Suc c \<and>
     take c (users s') = users s \<and>
     take (length (strings s)) (strings s') = strings s \<and>
     parties s' = parties s \<and>
     ID (users s' ! c) = ID (users s ! a) \<and>
     Username (users s' ! c) = Username (users s ! a) \<and>
     Discriminator (users s' ! c) = Discriminator (users s ! a) \<and>
     Email (users s' ! c) = Email (users s ! a) \<and>
     Token (users s' ! c) = Token (users s ! a) \<and>
     Verified (users s' ! c) = Verified (users s ! a) \<and>
     MFAEnabled (users s' ! c) = MFAEnabled (users s ! a) \<and>
     Bot (users s' ! c) = Bot (users s ! a) \<and>
     mutex (users s' ! c) = \<lparr>readers = 0, writer = False\<rparr> \<and>
     (Avatar (users s ! a) = None \<longrightarrow> Avatar (users s' ! c) = None) \<and>
     (\<forall>p. Avatar (users s ! a) = Some p \<longrightarrow>
        (\<exists>q. Avatar (users s' ! c) = Some q \<and> q \<noteq> p \<and>
           load_string s' (Some q) = Returns (strings s ! p) \<and>
           load_string s' (Some p) = Returns (strings s ! p) \<and>
           (\<forall>v. bind (store_string s' (Some q) v) (\<lambda>t. load_string t (Some p)) =
                  Returns (strings s ! p)) \<and>
           (\<forall>v. bind (store_string s' (Some p) v) (\<lambda>t. load_string t (Some q)) =
                  Returns (strings s ! p)))) \<and>
     (\<forall>v. bind (store_user s' (Some c) v) (\<lambda>t. load_user t (Some a)) =
            Returns (users s ! a)) \<and>
     (\<forall>v. bind (store_user s' (Some a) v) (\<lambda>t. load_user t (Some c)) =
            Returns (users s' ! c))"
proof (cases "Avatar (users s ! a)")
  case None
  show ?thesis
    unfolding DeepCopy_result [OF assms]
    using assms(1) None
    by (simp add: copied_def zero_User_def nth_append store_user_def load_user_def index_def
        nth_list_update)
next
  case (Some p)
  have p: "p < length (strings s)"
    using assms(2,1) Some by (rule wf_store_avatar)
  show ?thesis
    unfolding DeepCopy_result [OF assms]
    using assms(1) Some p
    by (simp add: copied_def zero_User_def nth_append store_user_def load_user_def index_def
        nth_list_update store_string_def load_string_def)
qed

theorem DeepCopy_independent_copy_witness:
  "0 < length (users example_store) \<and> wf_store example_store \<and>
   \<not> writer (mutex (users example_store ! 0)) \<and>
   Avatar (users example_store ! 0) = Some 0 \<and>
   (\<exists>s' c. DeepCopy example_store (Some 0) = Returns (PtrUser (Some c), s') \<and>
      c = 2 \<and> Username (users s' ! c) = ''Ann'' \<and>
      (\<exists>q. Avatar (users s' ! c) = Some q \<and> q \<noteq> 0 \<and>
         load_string s' (Some q) = Returns ''a1b2''))"
proof -
  have h1: "0 < length (users example_store)"
    by (simp add: example_store_def)
  have h2: "wf_store example_store"
    by (simp add: example_store_def wf_store_def)
  have h3: "\<not> writer (mutex (users example_store ! 0))"
    by (simp add: example_store_def)
  have h4: "Avatar (users example_store ! 0) = Some 0"
    by (simp add: example_store_def)
  have v: "length (users example_store) = 2" "Username (users example_store ! 0) = ''Ann''"
    "strings example_store ! 0 = ''a1b2''"
    by (simp_all add: example_store_def)
  from DeepCopy_independent_copy [OF h1 h2 h3] obtain s' c where
    r: "DeepCopy example_store (Some 0) = Returns (PtrUser (Some c), s')"
      "c = length (users example_store)"
      "Username (users s' ! c) = Username (users example_store ! 0)"
      "\<forall>p. Avatar (users example_store ! 0) = Some p \<longrightarrow>
        (\<exists>q. Avatar (users s' ! c) = Some q \<and> q \<noteq> p \<and>
           load_string s' (Some q) = Returns (strings example_store ! p) \<and>
           load_string s' (Some p) = Returns (strings example_store ! p) \<and>
           (\<forall>v. bind (store_string s' (Some q) v) (\<lambda>t. load_string t (Some p)) =
                  Returns (strings example_store ! p)) \<and>
           (\<forall>v. bind (store_string s' (Some p) v) (\<lambda>t. load_string t (Some q)) =
                  Returns (strings example_store ! p)))"
    by blast
  from r(4) h4 obtain q where
    q: "Avatar (users s' ! c) = Some q" "q \<noteq> 0"
       "load_string s' (Some q) = Returns (strings example_store ! 0)"
    by blast
  show ?thesis
    using h1 h2 h3 h4 r(1,2,3) q v by auto
qed

text \<open>
  C3, at the input where it fails. The user at address 1 has no avatar; the user at
  address 0 has the avatar cell 0. After \<open>CopyOverTo\<close> from 1 to 0, which returns
  without error, the scalar fields of the target are those of the source, but its
  Avatar still points to the cell 0 with the old string: the nil Avatar of the source
  was not transferred.
\<close>

theorem CopyOverTo_keeps_stale_avatar:
  "Avatar (users example_store ! 1) = None \<and>
   (\<exists>s'. CopyOverTo example_store (Some 1) (PtrUser (Some 0)) = Returns (None, s') \<and>
      Username (users s' ! 0) = ''Bob'' \<and>
      Avatar (users s' ! 0) = Some 0 \<and>
      load_string s' (Avatar (users s' ! 0)) = Returns ''a1b2'' \<and>
      Avatar (users s' ! 0) \<noteq> Avatar (users example_store ! 1))"
proof -
  have "CopyOverTo example_store (Some 1) (PtrUser (Some 0)) =
     Returns (None, example_store\<lparr>users := (users example_store)[0 :=
        copied (users example_store ! 1) (users example_store ! 0)
          (Avatar (users example_store ! 0))]\<rparr>)"
    by (rule CopyOverTo_nil_avatar) (simp_all add: example_store_def)
  then show ?thesis
    by (simp add: example_store_def copied_def load_string_def index_def)
qed

text \<open>
  C4. When the target is not a \<open>*User\<close> (a nil interface, a User held by value, a
  pointer to a party, a string, an int), \<open>CopyOverTo\<close> returns the UnsupportedType
  error and the store it was given, so that no field of the target, nor of anything
  else, has changed. And an error is returned in this case only: with a \<open>*User\<close> as
  target the call returns no error, if it returns.
\<close>

theorem CopyOverTo_unsupported_type:
  "((\<forall>p. other \<noteq> PtrUser p) \<longrightarrow>
      CopyOverTo s u other =
        Returns (Some (NewErrorUnsupportedType ''argument given is not a *User type''), s)) \<and>
   ((\<exists>e s'. CopyOverTo s u other = Returns (Some e, s')) \<longrightarrow> (\<forall>p. other \<noteq> PtrUser p))"
proof (cases other)
  case (PtrUser user)
  have "CopyOverTo s u (PtrUser user) \<noteq> Returns (Some e, s')" for e s'
    by (auto simp: CopyOverTo_def bind_Returns_iff)
  with PtrUser show ?thesis by simp
qed (simp_all add: CopyOverTo_def)


theorem CopyOverTo_unsupported_type_witness:
  "(\<forall>p. PtrParty (Some 0) \<noteq> PtrUser p) \<and>
   CopyOverTo example_store (Some 0) (PtrParty (Some 0)) =
     Returns (Some (ErrorUnsupportedType ''argument given is not a *User type''), example_store) \<and>
   CopyOverTo example_store (Some 0) NilIface =
     Returns (Some (ErrorUnsupportedType ''argument given is not a *User type''), example_store) \<and>
   CopyOverTo example_store (Some 0) (ValUser zero_User) =
     Returns (Some (ErrorUnsupportedType ''argument given is not a *User type''), example_store)"
  using CopyOverTo_unsupported_type [of "PtrParty (Some 0)" example_store "Some 0"]
    CopyOverTo_unsupported_type [of NilIface example_store "Some 0"]
    CopyOverTo_unsupported_type [of "ValUser zero_User" example_store "Some 0"]
  by (simp add: NewErrorUnsupportedType_def)

subsection \<open>Serialization\<close>

text \<open>
  C1. For a user whose identifier is 0, \<open>MarshalJSON\<close> returns the bytes \<open>{}\<close> and no
  error, whatever the other fields hold and whatever the encoders are; \<open>{}\<close> is the
  text of the object without members.
\<close>

theorem MarshalJSON_empty_id:
  assumes "load_user s p = Returns u" and "ID u = 0"
  shows "MarshalJSON enc_id enc_str s p = Returns (Inr ''{}'') \<and>
     render_object enc_id enc_str [] = Inr ''{}''"
  using assms by (simp add: MarshalJSON_def Empty_def render_object_def)

theorem MarshalJSON_empty_id_witness:
  "load_user example_store (Some 1) = Returns (users example_store ! 1) \<and>
   ID (users example_store ! 1) = 0 \<and>
   Username (users example_store ! 1) = ''Bob'' \<and>
   Bot (users example_store ! 1) \<and>
   MarshalJSON (\<lambda>x. Inr ''1'') (\<lambda>x. x) example_store (Some 1) = Returns (Inr ''{}'')"
proof -
  have h1: "load_user example_store (Some 1) = Returns (users example_store ! 1)"
    by (simp add: example_store_def load_user_def index_def)
  have h2: "ID (users example_store ! 1) = 0"
    by (simp add: example_store_def)
  show ?thesis
    using h1 h2 MarshalJSON_empty_id [OF h1 h2, of "\<lambda>x. Inr ''1''" "\<lambda>x. x"]
    by (simp add: example_store_def)
qed

lemma keys_append: "keys (xs @ ys) = keys xs @ keys ys"
  by (simp add: keys_def)

lemma keys_Cons: "keys ((k, v) # ms) = k # keys ms"
  by (simp add: keys_def)

lemma key_omitempty: "k \<in> set (keys (omitempty z (k', v))) \<longleftrightarrow> \<not> z \<and> k = k'"
  by (auto simp: keys_def omitempty_def)

lemma render_members_total:
  "list_all (renders enc_id enc_str) ms \<Longrightarrow> \<exists>out. render_members enc_id enc_str ms = Inr out"
proof (induction ms)
  case Nil
  then show ?case by simp
next
  case (Cons m ms)
  obtain k v where m: "m = (k, v)" by (cases m)
  from Cons obtain val rest where "render_value enc_id enc_str v = Inr val"
    "render_members enc_id enc_str ms = Inr rest"
    by (auto simp: renders_def m)
  then show ?case by (simp add: m)
qed

lemma renders_omitempty:
  "renders enc_id enc_str m \<Longrightarrow> list_all (renders enc_id enc_str) (omitempty z m)"
  by (simp add: omitempty_def)

lemma user_members_render:
  assumes "user_members s u = Returns ms" and "enc_id (ID u) = Inr idtext"
  shows "\<exists>out. render_object enc_id enc_str ms = Inr out"
proof -
  have "list_all (renders enc_id enc_str) ms"
    using assms
    by (auto simp: user_members_def renders_omitempty renders_def load_string_def index_def
        split: option.splits if_splits)
  then obtain out where "render_members enc_id enc_str ms = Inr out"
    using render_members_total by blast
  then show ?thesis by (simp add: render_object_def)
qed

lemma render_members_join:
  assumes "\<forall>m \<in> set ms. render_value enc_id enc_str (snd m) = Inr (tx (snd m))"
  shows "render_members enc_id enc_str ms =
     Inr (case ms of [] \<Rightarrow> []
          | m # rest \<Rightarrow> [CHR 0x22] @ fst m @ [CHR 0x22] @ '':'' @ tx (snd m) @
              concat (map (\<lambda>m. '','' @ [CHR 0x22] @ fst m @ [CHR 0x22] @ '':'' @ tx (snd m)) rest))"
  using assms
proof (induction ms)
  case Nil
  then show ?case by simp
next
  case (Cons m ms)
  obtain k v where m: "m = (k, v)" by (cases m)
  show ?case
    using Cons by (cases ms) (auto simp: m)
qed

lemma concat_map_omitempty:
  "concat (map f (omitempty z m)) = (if z then [] else f m)"
  by (simp add: omitempty_def)

lemma set_omitempty: "set (omitempty z m) = (if z then {} else {m})"
  by (simp add: omitempty_def)

lemma MarshalJSON_text:
  assumes "load_user s p = Returns u" and "wf_store s" and "Valid u"
    and "enc_id (ID u) = Inr idtext"
  shows \<open>MarshalJSON enc_id enc_str s p = Returns (Inr (
       ''{"id":'' @ idtext @
       (if Username u = [] then [] else '',"username":'' @ enc_str (Username u)) @
       (if Discriminator u = [] then [] else '',"discriminator":'' @ enc_str (Discriminator u)) @
       (if Email u = [] then [] else '',"email":'' @ enc_str (Email u)) @
       '',"avatar":'' @ (case Avatar u of None \<Rightarrow> ''null'' | Some q \<Rightarrow> enc_str (strings s ! q)) @
       (if Token u = [] then [] else '',"token":'' @ enc_str (Token u)) @
       (if Verified u then '',"verified":true'' else []) @
       (if MFAEnabled u then '',"mfa_enabled":true'' else []) @
       (if Bot u then '',"bot":true'' else []) @
       ''}''))\<close>
proof -
  obtain a where a: "p = Some a" "a < length (users s)" "u = users s ! a"
    using assms(1) by (auto simp: load_user_def index_def split: option.splits if_splits)
  have av: "\<And>q. Avatar u = Some q \<Longrightarrow> q < length (strings s)"
    using assms(2) a by (auto dest: wf_store_avatar)
  have id: "ID u \<noteq> 0"
    using assms(3) by (simp add: Valid_def)
  let ?avatar = "case Avatar u of None \<Rightarrow> JNull | Some q \<Rightarrow> JString (strings s ! q)"
  let ?rest = "omitempty (Username u = []) (''username'', JString (Username u)) @
       omitempty (Discriminator u = []) (''discriminator'', JString (Discriminator u)) @
       omitempty (Email u = []) (''email'', JString (Email u)) @
       [(''avatar'', ?avatar)] @
       omitempty (Token u = []) (''token'', JString (Token u)) @
       omitempty (\<not> Verified u) (''verified'', JBool (Verified u)) @
       omitempty (\<not> MFAEnabled u) (''mfa_enabled'', JBool (MFAEnabled u)) @
       omitempty (\<not> Bot u) (''bot'', JBool (Bot u))"
  have ms: "user_members s u = Returns ((''id'', JSnowflake (ID u)) # ?rest)"
    using av id
    by (cases "Avatar u") (simp_all add: user_members_def load_string_def index_def omitempty_def)
  have r: "\<forall>m \<in> set ((''id'', JSnowflake (ID u)) # ?rest).
      render_value enc_id enc_str (snd m) = Inr (value_text enc_str idtext (snd m))"
    using assms(4)
    by (auto simp: set_omitempty value_text_def split: if_splits option.splits)
  have m: "MarshalJSON enc_id enc_str s p =
      Returns (render_object enc_id enc_str ((''id'', JSnowflake (ID u)) # ?rest))"
    using assms(1) id by (simp add: MarshalJSON_def Empty_def json_Marshal_User_def ms)
  show ?thesis
    unfolding m render_object_def render_members_join [OF r]
    by (cases "Avatar u"; cases "Verified u"; cases "MFAEnabled u"; cases "Bot u")
      (simp_all add: concat_map_omitempty value_text_def split del: if_split cong: if_cong)
qed

text \<open>
  C5. For a user with identifier > 0 in a store without dangling Avatar pointers,
  when the encoder of the identifier succeeds, \<open>MarshalJSON\<close> returns no error and the
  text of one object: it starts with the member \<open>id\<close>, the member \<open>avatar\<close> is always
  written (as null for a nil pointer), and each of \<open>username\<close>, \<open>discriminator\<close>,
  \<open>email\<close>, \<open>token\<close>, \<open>verified\<close>, \<open>mfa_enabled\<close>, \<open>bot\<close> contributes its member when
  its field does not hold the zero value and nothing at all when it does. The same
  holds of the members selected by the tags, of which the text is the rendering.
\<close>

theorem MarshalJSON_full_form:
  assumes "load_user s p = Returns u" and "wf_store s" and "Valid u"
    and "enc_id (ID u) = Inr idtext"
  shows \<open>\<exists>ms out. user_members s u = Returns ms \<and>
     MarshalJSON enc_id enc_str s p = Returns (Inr out) \<and>
     render_object enc_id enc_str ms = Inr out \<and>
     out =
       ''{"id":'' @ idtext @
       (if Username u = [] then [] else '',"username":'' @ enc_str (Username u)) @
       (if Discriminator u = [] then [] else '',"discriminator":'' @ enc_str (Discriminator u)) @
       (if Email u = [] then [] else '',"email":'' @ enc_str (Email u)) @
       '',"avatar":'' @ (case Avatar u of None \<Rightarrow> ''null'' | Some q \<Rightarrow> enc_str (strings s ! q)) @
       (if Token u = [] then [] else '',"token":'' @ enc_str (Token u)) @
       (if Verified u then '',"verified":true'' else []) @
       (if MFAEnabled u then '',"mfa_enabled":true'' else []) @
       (if Bot u then '',"bot":true'' else []) @
       ''}'' \<and>
     ''id'' \<in> set (keys ms) \<and> ''avatar'' \<in> set (keys ms) \<and>
     (''username'' \<in> set (keys ms) \<longleftrightarrow> Username u \<noteq> []) \<and>
     (''discriminator'' \<in> set (keys ms) \<longleftrightarrow> Discriminator u \<noteq> []) \<and>
     (''email'' \<in> set (keys ms) \<longleftrightarrow> Email u \<noteq> []) \<and>
     (''token'' \<in> set (keys ms) \<longleftrightarrow> Token u \<noteq> []) \<and>
     (''verified'' \<in> set (keys ms) \<longleftrightarrow> Verified u) \<and>
     (''mfa_enabled'' \<in> set (keys ms) \<longleftrightarrow> MFAEnabled u) \<and>
     (''bot'' \<in> set (keys ms) \<longleftrightarrow> Bot u)\<close>
proof -
  obtain a where a: "p = Some a" "a < length (users s)" "u = users s ! a"
    using assms(1) by (auto simp: load_user_def index_def split: option.splits if_splits)
  have av: "\<And>q. Avatar u = Some q \<Longrightarrow> q < length (strings s)"
    using assms(2) a by (auto dest: wf_store_avatar)
  obtain ms where ms: "user_members s u = Returns ms"
    using av by (cases "Avatar u") (auto simp: user_members_def load_string_def index_def)
  obtain out where out: "render_object enc_id enc_str ms = Inr out"
    using user_members_render [of s u ms enc_id idtext enc_str] ms assms(4) by blast
  have id: "ID u \<noteq> 0"
    using assms(3) by (simp add: Valid_def)
  have m: "MarshalJSON enc_id enc_str s p = Returns (Inr out)"
    using assms(1) id ms out by (simp add: MarshalJSON_def Empty_def json_Marshal_User_def)
  have tx: \<open>out =
       ''{"id":'' @ idtext @
       (if Username u = [] then [] else '',"username":'' @ enc_str (Username u)) @
       (if Discriminator u = [] then [] else '',"discriminator":'' @ enc_str (Discriminator u)) @
       (if Email u = [] then [] else '',"email":'' @ enc_str (Email u)) @
       '',"avatar":'' @ (case Avatar u of None \<Rightarrow> ''null'' | Some q \<Rightarrow> enc_str (strings s ! q)) @
       (if Token u = [] then [] else '',"token":'' @ enc_str (Token u)) @
       (if Verified u then '',"verified":true'' else []) @
       (if MFAEnabled u then '',"mfa_enabled":true'' else []) @
       (if Bot u then '',"bot":true'' else []) @
       ''}''\<close>
    using assms MarshalJSON_text [of s p u enc_id idtext enc_str] unfolding m by simp
  have k: "keys ms = keys (omitempty (ID u = 0) (''id'', JSnowflake (ID u))) @
       keys (omitempty (Username u = []) (''username'', JString (Username u))) @
       keys (omitempty (Discriminator u = []) (''discriminator'', JString (Discriminator u))) @
       keys (omitempty (Email u = []) (''email'', JString (Email u))) @
       [''avatar''] @
       keys (omitempty (Token u = []) (''token'', JString (Token u))) @
       keys (omitempty (\<not> Verified u) (''verified'', JBool (Verified u))) @
       keys (omitempty (\<not> MFAEnabled u) (''mfa_enabled'', JBool (MFAEnabled u))) @
       keys (omitempty (\<not> Bot u) (''bot'', JBool (Bot u)))"
    using ms av
    by (cases "Avatar u")
      (auto simp: user_members_def load_string_def index_def keys_append keys_Cons)
  have ks: "''id'' \<in> set (keys ms) \<and> ''avatar'' \<in> set (keys ms) \<and>
     (''username'' \<in> set (keys ms) \<longleftrightarrow> Username u \<noteq> []) \<and>
     (''discriminator'' \<in> set (keys ms) \<longleftrightarrow> Discriminator u \<noteq> []) \<and>
     (''email'' \<in> set (keys ms) \<longleftrightarrow> Email u \<noteq> []) \<and>
     (''token'' \<in> set (keys ms) \<longleftrightarrow> Token u \<noteq> []) \<and>
     (''verified'' \<in> set (keys ms) \<longleftrightarrow> Verified u) \<and>
     (''mfa_enabled'' \<in> set (keys ms) \<longleftrightarrow> MFAEnabled u) \<and>
     (''bot'' \<in> set (keys ms) \<longleftrightarrow> Bot u)"
    using id by (simp add: k key_omitempty)
  from ms m out tx ks show ?thesis
    by blast
qed

theorem MarshalJSON_full_form_witness:
  \<open>load_user example_store (Some 0) = Returns (users example_store ! 0) \<and>
   wf_store example_store \<and> Valid (users example_store ! 0) \<and>
   Email (users example_store ! 0) = [] \<and> \<not> Bot (users example_store ! 0) \<and>
   MarshalJSON (\<lambda>x. Inr ''"123"'') (\<lambda>x. ''"'' @ x @ ''"'') example_store (Some 0) =
     Returns (Inr
       ''{"id":"123","username":"Ann","discriminator":"0001","avatar":"a1b2","verified":true}'') \<and>
   (\<exists>ms. user_members example_store (users example_store ! 0) = Returns ms \<and>
      ''id'' \<in> set (keys ms) \<and> ''username'' \<in> set (keys ms) \<and>
      ''email'' \<notin> set (keys ms) \<and> ''bot'' \<notin> set (keys ms))\<close>
proof -
  have h1: "load_user example_store (Some 0) = Returns (users example_store ! 0)"
    by (simp add: example_store_def load_user_def index_def)
  have h2: "wf_store example_store"
    by (simp add: example_store_def wf_store_def)
  have h3: "Valid (users example_store ! 0)"
    by (simp add: example_store_def Valid_def)
  have h4: \<open>(\<lambda>x. Inr ''"123"'') (ID (users example_store ! 0)) = (Inr ''"123"'' :: error + string)\<close>
    by simp
  have v: "Email (users example_store ! 0) = []" "\<not> Bot (users example_store ! 0)"
    "Username (users example_store ! 0) = ''Ann''"
    "Discriminator (users example_store ! 0) = ''0001''"
    "Token (users example_store ! 0) = []" "Verified (users example_store ! 0)"
    "\<not> MFAEnabled (users example_store ! 0)" "Avatar (users example_store ! 0) = Some 0"
    "strings example_store ! 0 = ''a1b2''"
    by (simp_all add: example_store_def)
  from MarshalJSON_full_form [OF h1 h2 h3 h4, of \<open>\<lambda>x. ''"'' @ x @ ''"''\<close>]
  obtain ms out where r: "user_members example_store (users example_store ! 0) = Returns ms"
    \<open>MarshalJSON (\<lambda>x. Inr ''"123"'') (\<lambda>x. ''"'' @ x @ ''"'') example_store (Some 0) =
       Returns (Inr out)\<close>
    \<open>out =
       ''{"id":'' @ ''"123"'' @
       (if Username (users example_store ! 0) = [] then []
        else '',"username":'' @ ''"'' @ Username (users example_store ! 0) @ ''"'') @
       (if Discriminator (users example_store ! 0) = [] then []
        else '',"discriminator":'' @ ''"'' @ Discriminator (users example_store ! 0) @ ''"'') @
       (if Email (users example_store ! 0) = [] then []
        else '',"email":'' @ ''"'' @ Email (users example_store ! 0) @ ''"'') @
       '',"avatar":'' @
       (case Avatar (users example_store ! 0) of None \<Rightarrow> ''null''
        | Some q \<Rightarrow> ''"'' @ strings example_store ! q @ ''"'') @
       (if Token (users example_store ! 0) = [] then []
        else '',"token":'' @ ''"'' @ Token (users example_store ! 0) @ ''"'') @
       (if Verified (users example_store ! 0) then '',"verified":true'' else []) @
       (if MFAEnabled (users example_store ! 0) then '',"mfa_enabled":true'' else []) @
       (if Bot (users example_store ! 0) then '',"bot":true'' else []) @
       ''}''\<close>
    "''id'' \<in> set (keys ms)"
    "(''username'' \<in> set (keys ms)) = (Username (users example_store ! 0) \<noteq> [])"
    "(''email'' \<in> set (keys ms)) = (Email (users example_store ! 0) \<noteq> [])"
    "(''bot'' \<in> set (keys ms)) = Bot (users example_store ! 0)"
    by blast
  from r(3) have \<open>out =
      ''{"id":"123","username":"Ann","discriminator":"0001","avatar":"a1b2","verified":true}''\<close>
    by (simp add: v)
  with r h1 h2 h3 v show ?thesis
    by auto
qed

text \<open>
  C8. For every data and every target: when the target has the method
  \<open>UnmarshalJSON\<close>, \<open>Unmarshal\<close> returns what that method returns on the data;
  otherwise it returns what the decoder of \<open>encoding/json\<close> returns on the data and
  the target.
\<close>

theorem Unmarshal_dispatch:
  "(\<forall>j. as_Unmarshaler v = Some j \<longrightarrow> Unmarshal as_Unmarshaler json_Unmarshal data v = j data) \<and>
   (as_Unmarshaler v = None \<longrightarrow>
      Unmarshal as_Unmarshaler json_Unmarshal data v = json_Unmarshal data v)"
  by (simp add: Unmarshal_def)

theorem Unmarshal_dispatch_witness:
  "Unmarshal (\<lambda>v. if v then Some (\<lambda>d. ''custom: '' @ d) else None)
      (\<lambda>d v. ''generic: '' @ d) ''{}'' True = ''custom: {}'' \<and>
   Unmarshal (\<lambda>v. if v then Some (\<lambda>d. ''custom: '' @ d) else None)
      (\<lambda>d v. ''generic: '' @ d) ''{}'' False = ''generic: {}''"
  using Unmarshal_dispatch [of "\<lambda>v. if v then Some (\<lambda>d. ''custom: '' @ d) else None" True
      "\<lambda>d v. ''generic: '' @ d" "''{}''"]
    Unmarshal_dispatch [of "\<lambda>v. if v then Some (\<lambda>d. ''custom: '' @ d) else None" False
      "\<lambda>d v. ''generic: '' @ d" "''{}''"]
  by simp

subsection \<open>Stubs\<close>

text \<open>
  C9. For every store, every receiver and every session, \<open>SaveToDiscord\<close> returns the
  error made of the text \<open>not implemented\<close>; the store, so the user, and the state of
  the session are returned as they were given: nothing was called on the session.
\<close>

theorem SaveToDiscord_not_implemented:
  "SaveToDiscord s u session = Returns (Some (ErrorString ''not implemented''), s, session)"
  by (simp add: SaveToDiscord_def errors_New_def)

text \<open>
  C10. For every store and every receiver, \<open>Clear\<close> returns the store it was given:
  no field of the user has changed, and the user read after the call, its Avatar
  included, is the user read before.
\<close>

theorem Clear_changes_nothing:
  "Clear s u = Returns s \<and>
   bind (Clear s u) (\<lambda>s'. load_user s' u) = load_user s u"
  by (simp add: Clear_def)


subsection \<open>Concurrent copies\<close>

text \<open>
  The goroutine is \<open>CopyOverTo\<close> cut at its lock operations: run alone for five steps
  it does what the call does.
\<close>

lemma CopyOverTo_is_goroutine:
  "CopyOverTo s u (PtrUser user) =
     bind (run_alone 5 s (call u user)) (\<lambda>(s', g). Returns (None, s'))"
  apply (simp add: CopyOverTo_def eval_nat_numeral goroutine_step_def call_def)
  apply (cases "on_mutex RLock s u"; simp)
  subgoal for s1
    apply (cases "on_mutex Lock s1 user"; simp add: goroutine_step_def)
    subgoal for s2
      apply (cases "copy_fields s2 u user"; simp add: goroutine_step_def)
      subgoal for s3
        apply (cases "on_mutex RUnlock s3 u"; simp add: goroutine_step_def)
        subgoal for s4
          apply (cases "on_mutex Unlock s4 user"; simp add: goroutine_step_def)
          done
        done
      done
    done
  done

























end
